theory Spec2Isabelle
  imports Complex_Main
begin

section \<open>The undo/redo widget of core/undoredo.js\<close>

text \<open>
  A shallow embedding of \<^verbatim>\<open>Blockly.Undoredo\<close>. Conventions:
  \<^item> Isabelle does not accept a name that ends in an underscore, so the private members of
    the source (\<^verbatim>\<open>left_\<close>, \<^verbatim>\<open>WIDTH_\<close>, \<^verbatim>\<open>undoMouseDown_\<close>, \<^verbatim>\<open>bindEvent_\<close>, ...) are written
    with a prime in place of the underscore (\<open>left'\<close>, \<open>WIDTH'\<close>, ...).
  \<^item> A JavaScript number is modelled as a real: the finite values with exact arithmetic.
    Rounding, NaN and the infinities are outside the model.
  \<^item> A reference that may be \<^verbatim>\<open>null\<close> or \<^verbatim>\<open>undefined\<close> is an \<open>option\<close>; calling a method
    on \<open>None\<close> is the \<^verbatim>\<open>TypeError\<close> JavaScript throws there.
  \<^item> An operation returns its completion (normal or thrown) together with the widget
    and the world as they are at that moment: what was assigned before a throw stays assigned.
\<close>

subsection \<open>Values\<close>

text \<open>
  A string built by concatenation, with the numbers that were converted into it kept as
  numbers: \<^verbatim>\<open>'translate(' + x + ',' + y + ')'\<close> is
  \<open>[Lit ''translate('', Num x, Lit '','', Num y, Lit '')'']\<close>.
\<close>

datatype frag = Lit string | Num real

type_synonym jsstring = "frag list"

datatype js_error = TypeError

datatype 'a completion = Normal 'a | Throw js_error

type_synonym ref = nat

subsection \<open>The host: workspace, metrics, constants\<close>

text \<open>The object \<^verbatim>\<open>getMetrics()\<close> returns; only the fields \<^verbatim>\<open>position\<close> reads.\<close>

record metrics =
  toolboxPosition :: int
  viewWidth :: real
  viewHeight :: real
  absoluteLeft :: real
  absoluteTop :: real

text \<open>
  The workspace as the widget sees it: what \<^verbatim>\<open>getMetrics()\<close> returns at the moment
  (\<open>None\<close> when it returns nothing) and the two layout flags.
\<close>

record workspace_svg =
  getMetrics :: "metrics option"
  horizontalLayout :: bool
  RTL :: bool

text \<open>
  The constants of the \<^verbatim>\<open>Blockly\<close> namespace that \<^verbatim>\<open>position\<close> reads. They are declared in
  other files (\<^verbatim>\<open>Blockly.constants\<close>, \<^verbatim>\<open>Blockly.Scrollbar\<close>), so they are parameters here.
\<close>

record blockly =
  TOOLBOX_AT_LEFT :: int
  TOOLBOX_AT_BOTTOM :: int
  scrollbarThickness :: real

text \<open>
  The calls the widget makes on a workspace (by its reference) and on the console, in the
  order they are made. What it does to the document shows in the document itself.
\<close>

datatype call =
    GetMetricsCall ref
  | UndoCall ref bool
  | ConsoleLog string

subsection \<open>The document\<close>

datatype svg_tag = G | TEXT

datatype handler =
    undoMouseDown' | undoMouseUp' | undoMouseOver' | undoMouseOut'
  | redoMouseDown' | redoMouseUp' | redoMouseOver' | redoMouseOut'

record node =
  tagName :: svg_tag
  attributes :: "(string \<times> jsstring) list"
  parentNode :: "ref option"
  childNodes :: "ref list"
  textContent :: string
  listeners :: "(string \<times> handler) list"

text \<open>
  The world outside the widget: the nodes ever created (a reference is an index into
  \<open>dom\<close>), the workspaces by reference, and the log of calls.
\<close>

record world =
  dom :: "node list"
  workspaces :: "ref \<Rightarrow> workspace_svg"
  calls :: "call list"

definition update_node :: "ref \<Rightarrow> (node \<Rightarrow> node) \<Rightarrow> world \<Rightarrow> world" where
  "update_node e f W =
     (if e < length (dom W) then W\<lparr>dom := (dom W)[e := f (dom W ! e)]\<rparr> else W)"

fun set_attr :: "string \<Rightarrow> jsstring \<Rightarrow> (string \<times> jsstring) list \<Rightarrow> (string \<times> jsstring) list" where
  "set_attr k v [] = [(k, v)]"
| "set_attr k v ((k', v') # kvs) =
     (if k = k' then (k, v) # kvs else (k', v') # set_attr k v kvs)"

definition setAttribute :: "ref \<Rightarrow> string \<Rightarrow> jsstring \<Rightarrow> world \<Rightarrow> world" where
  "setAttribute e k v W = update_node e (\<lambda>n. n\<lparr>attributes := set_attr k v (attributes n)\<rparr>) W"

definition set_textContent :: "ref \<Rightarrow> string \<Rightarrow> world \<Rightarrow> world" where
  "set_textContent e s W = update_node e (\<lambda>n. n\<lparr>textContent := s\<rparr>) W"

definition appendChild :: "ref \<Rightarrow> ref \<Rightarrow> world \<Rightarrow> world" where
  "appendChild p e W =
     update_node e (\<lambda>n. n\<lparr>parentNode := Some p\<rparr>)
       (update_node p (\<lambda>n. n\<lparr>childNodes := childNodes n @ [e]\<rparr>) W)"

text \<open>
  Modelled from the spec: \<^verbatim>\<open>Blockly.utils.dom.createSvgElement\<close> is not among the sources.
  The spec has \<^verbatim>\<open>createDom\<close> build visual elements under a root group: a fresh node of the
  given tag with the given attributes is made and, when a parent is given, appended to it.
\<close>

definition createSvgElement ::
  "svg_tag \<Rightarrow> (string \<times> jsstring) list \<Rightarrow> ref option \<Rightarrow> world \<Rightarrow> ref \<times> world" where
  "createSvgElement name attrs parent W =
     (let e = length (dom W);
          W1 = W\<lparr>dom := dom W @
                 [\<lparr>tagName = name, attributes = [], parentNode = None, childNodes = [],
                   textContent = [], listeners = []\<rparr>]\<rparr>;
          W2 = fold (\<lambda>(k, v). setAttribute e k v) attrs W1
      in case parent of
           None \<Rightarrow> (e, W2)
         | Some p \<Rightarrow> (e, appendChild p e W2))"

text \<open>
  Modelled from the spec: \<^verbatim>\<open>Blockly.utils.dom.removeNode\<close> is not among the sources. The spec
  has \<^verbatim>\<open>dispose\<close> detach the root visual node: the node leaves its parent's children and
  has no parent afterwards; a node without a parent stays as it is.
\<close>

definition removeNode :: "ref \<Rightarrow> world \<Rightarrow> world" where
  "removeNode e W =
     (if e < length (dom W) then
        (case parentNode (dom W ! e) of
           None \<Rightarrow> W
         | Some p \<Rightarrow>
             update_node e (\<lambda>n. n\<lparr>parentNode := None\<rparr>)
               (update_node p (\<lambda>n. n\<lparr>childNodes := removeAll e (childNodes n)\<rparr>) W))
      else W)"

text \<open>
  Modelled from the spec: \<^verbatim>\<open>Blockly.bindEvent_\<close> is not among the sources. The spec has
  \<^verbatim>\<open>createDom\<close> bind handlers to each element: the handler is added to the node's
  listeners under the event's name. The \<^verbatim>\<open>this\<close> object it is bound with is always the widget.
\<close>

definition bindEvent' :: "ref \<Rightarrow> string \<Rightarrow> handler \<Rightarrow> world \<Rightarrow> world" where
  "bindEvent' e name h W = update_node e (\<lambda>n. n\<lparr>listeners := listeners n @ [(name, h)]\<rparr>) W"

subsection \<open>The widget\<close>

record undoredo =
  workspace' :: "ref option"
  svgGroup' :: "ref option"
  left' :: real
  top' :: real
  verticalSpacing' :: "real option"

text \<open>
  The constructor stores the workspace; the other fields are the prototype's:
  \<^verbatim>\<open>svgGroup_ = null\<close>, \<^verbatim>\<open>left_ = 0\<close>, \<^verbatim>\<open>top_ = 0\<close>, and no \<^verbatim>\<open>verticalSpacing_\<close> at all.
\<close>

definition Undoredo :: "ref \<Rightarrow> undoredo" where
  "Undoredo w =
     \<lparr>workspace' = Some w, svgGroup' = None, left' = 0, top' = 0, verticalSpacing' = None\<rparr>"

definition WIDTH' :: real where "WIDTH' = 47"
definition BODY_HEIGHT' :: real where "BODY_HEIGHT' = 44"
definition MARGIN_BOTTOM' :: real where "MARGIN_BOTTOM' = 20"
definition MARGIN_SIDE' :: real where "MARGIN_SIDE' = 20"
definition MARGIN_HOTSPOT' :: real where "MARGIN_HOTSPOT' = 10"

text \<open>
  \<^verbatim>\<open>createDom\<close>. The argument \<open>rnd\<close> is \<^verbatim>\<open>String(Math.random()).substring(2)\<close>, which the
  source draws afresh at each call.
\<close>

definition createDom :: "string \<Rightarrow> undoredo \<Rightarrow> world \<Rightarrow> ref \<times> undoredo \<times> world" where
  "createDom rnd this W =
     (let (g, W1) = createSvgElement G [(''class'', [Lit ''blocklyUndoredo''])] None W;
          this1 = this\<lparr>svgGroup' := Some g\<rparr>;
          (undo, W2) = createSvgElement TEXT
                         [(''id'', [Lit (''blocklyUndoText'' @ rnd)]),
                          (''style'', [Lit ''fill: #aaa;''])]
                         (svgGroup' this1) W1;
          W3 = set_textContent undo ''Undo'' W2;
          (redo, W4) = createSvgElement TEXT
                         [(''id'', [Lit (''blocklyRedoText'' @ rnd)]),
                          (''style'', [Lit ''fill: #aaa;'']),
                          (''y'', [Num 30])]
                         (svgGroup' this1) W3;
          W5 = set_textContent redo ''Redo'' W4;
          W6 = bindEvent' undo ''mousedown'' undoMouseDown' W5;
          W7 = bindEvent' undo ''mouseup'' undoMouseUp' W6;
          W8 = bindEvent' undo ''mouseover'' undoMouseOver' W7;
          W9 = bindEvent' undo ''mouseout'' undoMouseOut' W8;
          W10 = bindEvent' redo ''mousedown'' redoMouseDown' W9;
          W11 = bindEvent' redo ''mouseup'' redoMouseUp' W10;
          W12 = bindEvent' redo ''mouseover'' redoMouseOver' W11;
          W13 = bindEvent' redo ''mouseout'' redoMouseOut' W12
      in (g, this1, W13))"

definition init :: "real \<Rightarrow> undoredo \<Rightarrow> real \<times> undoredo" where
  "init verticalSpacing this =
     (let vs = MARGIN_BOTTOM' + verticalSpacing;
          this1 = this\<lparr>verticalSpacing' := Some vs\<rparr>
      in (vs + BODY_HEIGHT', this1))"

definition dispose :: "undoredo \<Rightarrow> world \<Rightarrow> undoredo \<times> world" where
  "dispose this W =
     (let (this1, W1) =
            (case svgGroup' this of
               Some g \<Rightarrow> (this\<lparr>svgGroup' := None\<rparr>, removeNode g W)
             | None \<Rightarrow> (this, W))
      in (this1\<lparr>workspace' := None\<rparr>, W1))"

text \<open>
  \<^verbatim>\<open>position\<close>. The test \<^verbatim>\<open>!this.verticalSpacing_\<close> holds for \<^verbatim>\<open>undefined\<close> and for \<^verbatim>\<open>0\<close>.
  \<^verbatim>\<open>this.workspace_.getMetrics()\<close> and \<^verbatim>\<open>this.svgGroup_.setAttribute(...)\<close> throw on \<^verbatim>\<open>null\<close>;
  the second comes after the two coordinates have been assigned.
\<close>

definition position :: "blockly \<Rightarrow> undoredo \<Rightarrow> world \<Rightarrow> unit completion \<times> undoredo \<times> world" where
  "position B this W =
     (case verticalSpacing' this of
        None \<Rightarrow> (Normal (), this, W)
      | Some vs \<Rightarrow>
          if vs = 0 then (Normal (), this, W)
          else
            (case workspace' this of
               None \<Rightarrow> (Throw TypeError, this, W)
             | Some w \<Rightarrow>
                 (let W1 = W\<lparr>calls := calls W @ [GetMetricsCall w]\<rparr>
                  in case getMetrics (workspaces W w) of
                       None \<Rightarrow> (Normal (), this, W1)
                     | Some m \<Rightarrow>
                         (let this1 =
                                (if toolboxPosition m = TOOLBOX_AT_LEFT B \<or>
                                    (horizontalLayout (workspaces W w) \<and> \<not> RTL (workspaces W w))
                                 then this\<lparr>left' := viewWidth m + absoluteLeft m -
                                                WIDTH' - MARGIN_SIDE' - scrollbarThickness B\<rparr>
                                 else this\<lparr>left' := MARGIN_SIDE' + scrollbarThickness B\<rparr>);
                              this2 =
                                (if toolboxPosition m = TOOLBOX_AT_BOTTOM B
                                 then this1\<lparr>top' := vs\<rparr>
                                 else this1\<lparr>top' := viewHeight m + absoluteTop m -
                                                BODY_HEIGHT' - vs\<rparr>)
                          in case svgGroup' this2 of
                               None \<Rightarrow> (Throw TypeError, this2, W1)
                             | Some g \<Rightarrow>
                                 (Normal (), this2,
                                  setAttribute g ''transform''
                                    [Lit ''translate('', Num (left' this2), Lit '','',
                                     Num (top' this2), Lit '')''] W1)))))"

text \<open>The mouse handlers. \<^verbatim>\<open>this.workspace_.undo(...)\<close> throws when the workspace is \<^verbatim>\<open>null\<close>.\<close>

definition undoMouseDown :: "undoredo \<Rightarrow> world \<Rightarrow> unit completion \<times> undoredo \<times> world" where
  "undoMouseDown this W =
     (let W1 = W\<lparr>calls := calls W @ [ConsoleLog ''undo mouse down event'']\<rparr>
      in case workspace' this of
           None \<Rightarrow> (Throw TypeError, this, W1)
         | Some w \<Rightarrow> (Normal (), this, W1\<lparr>calls := calls W1 @ [UndoCall w False]\<rparr>))"

definition redoMouseDown :: "undoredo \<Rightarrow> world \<Rightarrow> unit completion \<times> undoredo \<times> world" where
  "redoMouseDown this W =
     (let W1 = W\<lparr>calls := calls W @ [ConsoleLog ''redo mouse down event'']\<rparr>
      in case workspace' this of
           None \<Rightarrow> (Throw TypeError, this, W1)
         | Some w \<Rightarrow> (Normal (), this, W1\<lparr>calls := calls W1 @ [UndoCall w True]\<rparr>))"

fun run_handler :: "handler \<Rightarrow> undoredo \<Rightarrow> world \<Rightarrow> unit completion \<times> undoredo \<times> world" where
  "run_handler undoMouseDown' this W = undoMouseDown this W"
| "run_handler redoMouseDown' this W = redoMouseDown this W"
| "run_handler undoMouseUp' this W = (Normal (), this, W)"
| "run_handler undoMouseOver' this W = (Normal (), this, W)"
| "run_handler undoMouseOut' this W = (Normal (), this, W)"
| "run_handler redoMouseUp' this W = (Normal (), this, W)"
| "run_handler redoMouseOver' this W = (Normal (), this, W)"
| "run_handler redoMouseOut' this W = (Normal (), this, W)"

text \<open>The handlers bound to a node under an event's name, in the order they were bound.\<close>

definition bound :: "ref \<Rightarrow> string \<Rightarrow> world \<Rightarrow> handler list" where
  "bound e name W =
     (if e < length (dom W) then map snd (filter (\<lambda>(n, h). n = name) (listeners (dom W ! e)))
      else [])"

subsection \<open>Sequences of calls\<close>

text \<open>
  A call of one of the widget's operations by the host, and a run of such calls that stops
  at the first one that throws. The operations without a failing statement complete normally.
\<close>

datatype op = CreateDom string | Init real | Position | Dispose | Fire handler

fun step :: "blockly \<Rightarrow> op \<Rightarrow> undoredo \<Rightarrow> world \<Rightarrow> unit completion \<times> undoredo \<times> world" where
  "step B (CreateDom rnd) this W = (case createDom rnd this W of (g, this1, W1) \<Rightarrow> (Normal (), this1, W1))"
| "step B (Init v) this W = (Normal (), snd (init v this), W)"
| "step B Position this W = position B this W"
| "step B Dispose this W = (case dispose this W of (this1, W1) \<Rightarrow> (Normal (), this1, W1))"
| "step B (Fire h) this W = run_handler h this W"

fun run :: "blockly \<Rightarrow> op list \<Rightarrow> undoredo \<Rightarrow> world \<Rightarrow> unit completion \<times> undoredo \<times> world" where
  "run B [] this W = (Normal (), this, W)"
| "run B (x # xs) this W =
     (case step B x this W of
        (Normal u, this1, W1) \<Rightarrow> run B xs this1 W1
      | (Throw e, this1, W1) \<Rightarrow> (Throw e, this1, W1))"

subsection \<open>A concrete host\<close>

text \<open>
  A host in which toolbox-at-left is 2 and toolbox-at-bottom is 1, with a scrollbar 15 wide
  and a workspace 800 by 600 whose metrics report the toolbox at the given place.
\<close>

definition host_blockly :: blockly where
  "host_blockly = \<lparr>TOOLBOX_AT_LEFT = 2, TOOLBOX_AT_BOTTOM = 1, scrollbarThickness = 15\<rparr>"

definition host_metrics :: "int \<Rightarrow> metrics" where
  "host_metrics tp =
     \<lparr>toolboxPosition = tp, viewWidth = 800, viewHeight = 600, absoluteLeft = 100, absoluteTop = 0\<rparr>"

definition host_world :: "metrics option \<Rightarrow> world" where
  "host_world mo =
     \<lparr>dom = [],
      workspaces = (\<lambda>r. \<lparr>getMetrics = mo, horizontalLayout = False, RTL = False\<rparr>),
      calls = []\<rparr>"

text \<open>A document in which the widget's root group (node 1) hangs under a canvas (node 0).\<close>

definition host_document :: "node list" where
  "host_document =
     [\<lparr>tagName = G, attributes = [], parentNode = None, childNodes = [1],
       textContent = [], listeners = []\<rparr>,
      \<lparr>tagName = G, attributes = [(''class'', [Lit ''blocklyUndoredo''])], parentNode = Some 0,
       childNodes = [], textContent = [], listeners = []\<rparr>]"

section \<open>Auxiliary facts\<close>

subsection \<open>What \<open>createDom\<close> builds\<close>

lemma update_node_dom:
  "update_node e f (W\<lparr>dom := D\<rparr>) =
     (if e < length D then W\<lparr>dom := D[e := f (D ! e)]\<rparr> else W\<lparr>dom := D\<rparr>)"
  by (simp add: update_node_def)

lemma createSvgElement_dom:
  "createSvgElement name attrs parent W =
     (let e = length (dom W);
          W2 = fold (\<lambda>(k, v). setAttribute e k v) attrs
                 (W\<lparr>dom := dom W @
                    [\<lparr>tagName = name, attributes = [], parentNode = None, childNodes = [],
                      textContent = [], listeners = []\<rparr>]\<rparr>)
      in case parent of None \<Rightarrow> (e, W2) | Some p \<Rightarrow> (e, appendChild p e W2))"
  by (simp add: createSvgElement_def Let_def)

lemma createDom_result:
  "createDom rnd this W =
     (length (dom W), this\<lparr>svgGroup' := Some (length (dom W))\<rparr>,
      W\<lparr>dom := dom W @
        [\<lparr>tagName = G, attributes = [(''class'', [Lit ''blocklyUndoredo''])],
          parentNode = None,
          childNodes = [Suc (length (dom W)), Suc (Suc (length (dom W)))],
          textContent = [], listeners = []\<rparr>,
         \<lparr>tagName = TEXT,
          attributes = [(''id'', [Lit (''blocklyUndoText'' @ rnd)]), (''style'', [Lit ''fill: #aaa;''])],
          parentNode = Some (length (dom W)), childNodes = [], textContent = ''Undo'',
          listeners = [(''mousedown'', undoMouseDown'), (''mouseup'', undoMouseUp'),
                       (''mouseover'', undoMouseOver'), (''mouseout'', undoMouseOut')]\<rparr>,
         \<lparr>tagName = TEXT,
          attributes = [(''id'', [Lit (''blocklyRedoText'' @ rnd)]), (''style'', [Lit ''fill: #aaa;'']),
                        (''y'', [Num 30])],
          parentNode = Some (length (dom W)), childNodes = [], textContent = ''Redo'',
          listeners = [(''mousedown'', redoMouseDown'), (''mouseup'', redoMouseUp'),
                       (''mouseover'', redoMouseOver'), (''mouseout'', redoMouseOut')]\<rparr>]\<rparr>)"
  unfolding createDom_def createSvgElement_dom setAttribute_def appendChild_def
    set_textContent_def bindEvent'_def
  by (simp add: Let_def update_node_dom list_update_append nth_append del: append_assoc)

subsection \<open>Runs\<close>

lemma run_append:
  "run B (xs @ ys) this W =
     (case run B xs this W of
        (Normal u, t, V) \<Rightarrow> run B ys t V
      | (Throw e, t, V) \<Rightarrow> (Throw e, t, V))"
proof (induction xs arbitrary: this W)
  case Nil
  show ?case by simp
next
  case (Cons x xs)
  show ?case
  proof (cases "step B x this W")
    case (fields c t V)
    then show ?thesis using Cons.IH by (cases c) simp_all
  qed
qed

lemma position_live:
  assumes "workspace' this = Some w" and "svgGroup' this = Some g"
  shows "\<exists>t V. position B this W = (Normal (), t, V) \<and> workspace' t = Some w \<and> svgGroup' t = Some g"
  using assms by (simp add: position_def Let_def split: option.splits)

lemma step_live:
  assumes "workspace' this = Some w" and "svgGroup' this \<noteq> None" and "x \<noteq> Dispose"
  shows "\<exists>t V. step B x this W = (Normal (), t, V) \<and> workspace' t = Some w \<and> svgGroup' t \<noteq> None"
proof (cases x)
  case (CreateDom rnd)
  then show ?thesis using assms by (simp add: createDom_result)
next
  case (Init v)
  then show ?thesis using assms by (simp add: init_def Let_def)
next
  case Position
  from assms(2) obtain g where "svgGroup' this = Some g" by auto
  with position_live [OF assms(1) this, of B W] Position show ?thesis by auto
next
  case Dispose
  with assms show ?thesis by simp
next
  case (Fire h)
  then show ?thesis using assms
    by (cases h) (simp_all add: undoMouseDown_def redoMouseDown_def Let_def)
qed

lemma run_live:
  assumes "workspace' this = Some w" and "svgGroup' this \<noteq> None" and "Dispose \<notin> set xs"
  shows "\<exists>t V. run B xs this W = (Normal (), t, V) \<and> workspace' t = Some w \<and> svgGroup' t \<noteq> None"
  using assms
proof (induction xs arbitrary: this W)
  case Nil
  then show ?case by simp
next
  case (Cons x xs)
  from Cons.prems have "x \<noteq> Dispose" and rest: "Dispose \<notin> set xs" by auto
  from step_live [OF Cons.prems(1) Cons.prems(2) this(1), of B W] obtain t V
    where s: "step B x this W = (Normal (), t, V)" and t: "workspace' t = Some w" "svgGroup' t \<noteq> None"
    by blast
  from Cons.IH [OF t rest, of V] s show ?case by simp
qed

lemma run_disposes: "fst (run B (replicate n Dispose) this W) = Normal ()"
  by (induction n arbitrary: this W) (simp_all split: prod.splits)

lemma run_lifecycle:
  assumes "workspace' this = Some w" and "Dispose \<notin> set xs"
  shows "fst (run B (CreateDom rnd # xs @ replicate n Dispose) this W) = Normal ()"
proof -
  obtain g t1 W1 where cd: "createDom rnd this W = (g, t1, W1)"
    by (cases "createDom rnd this W") auto
  then have w1: "workspace' t1 = Some w" and g1: "svgGroup' t1 \<noteq> None"
    using assms(1) by (auto simp add: createDom_result)
  from run_live [OF w1 g1 assms(2), of B W1] obtain t V
    where "run B xs t1 W1 = (Normal (), t, V)"
    by blast
  then show ?thesis using cd by (simp add: run_append run_disposes)
qed

lemma run_positions_noop:
  assumes "position B this W = (Normal (), this, W)"
  shows "run B (replicate n Position) this W = (Normal (), this, W)"
  using assms by (induction n) simp_all

lemma completion_unit_cases: "c \<noteq> Normal () \<longleftrightarrow> c = Throw TypeError"
proof (cases c)
  case (Normal u)
  then show ?thesis by simp
next
  case (Throw e)
  then show ?thesis by (cases e) simp
qed

lemma step_throws:
  "fst (step B x this W) = Throw TypeError \<longleftrightarrow>
     (x = Position \<and> (\<exists>vs. verticalSpacing' this = Some vs \<and> vs \<noteq> 0) \<and>
        (workspace' this = None \<or>
         (svgGroup' this = None \<and>
          (\<exists>w m. workspace' this = Some w \<and> getMetrics (workspaces W w) = Some m))))
   \<or> ((x = Fire undoMouseDown' \<or> x = Fire redoMouseDown') \<and> workspace' this = None)"
proof (cases x)
  case (Fire h)
  then show ?thesis
    by (cases h) (auto simp add: undoMouseDown_def redoMouseDown_def Let_def split: option.splits)
next
  case Position
  then show ?thesis
    by (auto simp add: position_def Let_def split: option.splits)
qed (auto simp add: Let_def split: prod.splits)

section \<open>The mouse handlers\<close>

text \<open>
  \<^verbatim>\<open>dispose()\<close> sets the workspace reference to null and leaves the handlers bound. A
  mousedown on "Undo" or on "Redo" after it logs its line and then throws at
  \<^verbatim>\<open>this.workspace_.undo(...)\<close>: no undo operation is called.
\<close>

theorem mousedown_after_dispose_calls_nothing:
  "bound (Suc 0) ''mousedown''
     (snd (snd (run host_blockly [CreateDom ''5'', Dispose] (Undoredo 0) (host_world None)))) =
     [undoMouseDown'] \<and>
   fst (run host_blockly [CreateDom ''5'', Dispose, Fire undoMouseDown'] (Undoredo 0)
          (host_world None)) = Throw TypeError \<and>
   calls (snd (snd (run host_blockly [CreateDom ''5'', Dispose, Fire undoMouseDown'] (Undoredo 0)
          (host_world None)))) = [ConsoleLog ''undo mouse down event''] \<and>
   bound (Suc (Suc 0)) ''mousedown''
     (snd (snd (run host_blockly [CreateDom ''5'', Dispose] (Undoredo 0) (host_world None)))) =
     [redoMouseDown'] \<and>
   fst (run host_blockly [CreateDom ''5'', Dispose, Fire redoMouseDown'] (Undoredo 0)
          (host_world None)) = Throw TypeError \<and>
   calls (snd (snd (run host_blockly [CreateDom ''5'', Dispose, Fire redoMouseDown'] (Undoredo 0)
          (host_world None)))) = [ConsoleLog ''redo mouse down event'']"
  by (simp add: createDom_result dispose_def removeNode_def update_node_def bound_def
      undoMouseDown_def redoMouseDown_def Undoredo_def host_world_def Let_def)

text \<open>
  C1, as the code has it. \<^verbatim>\<open>createDom\<close> makes the "Undo" and the "Redo" text elements the
  two children of the root group and binds exactly one mousedown handler to each. Whenever the
  widget still holds its workspace \<open>w\<close> (it has not been disposed), the handler of "Undo" logs
  a line and calls \<^verbatim>\<open>w.undo(false)\<close>, the handler of "Redo" logs a line and calls
  \<^verbatim>\<open>w.undo(true)\<close>; neither makes any other call, and neither changes the widget.
\<close>

theorem mousedown_handlers_call_undo:
  assumes "workspace' this2 = Some w"
  shows "case createDom rnd this W of (g, this1, W1) \<Rightarrow>
     childNodes (dom W1 ! g) = [Suc g, Suc (Suc g)] \<and>
     textContent (dom W1 ! Suc g) = ''Undo'' \<and>
     bound (Suc g) ''mousedown'' W1 = [undoMouseDown'] \<and>
     run_handler undoMouseDown' this2 W2 =
       (Normal (), this2,
        W2\<lparr>calls := calls W2 @ [ConsoleLog ''undo mouse down event'', UndoCall w False]\<rparr>) \<and>
     textContent (dom W1 ! Suc (Suc g)) = ''Redo'' \<and>
     bound (Suc (Suc g)) ''mousedown'' W1 = [redoMouseDown'] \<and>
     run_handler redoMouseDown' this2 W2 =
       (Normal (), this2,
        W2\<lparr>calls := calls W2 @ [ConsoleLog ''redo mouse down event'', UndoCall w True]\<rparr>)"
  using assms
  by (simp add: createDom_result bound_def nth_append undoMouseDown_def redoMouseDown_def Let_def)

theorem mousedown_handlers_call_undo_witness:
  "workspace' (Undoredo 7) = Some 7 \<and>
   bound 1 ''mousedown'' (snd (snd (createDom ''5'' (Undoredo 7) (host_world None)))) =
     [undoMouseDown'] \<and>
   calls (snd (snd (run_handler undoMouseDown' (Undoredo 7) (host_world None)))) =
     [ConsoleLog ''undo mouse down event'', UndoCall 7 False] \<and>
   bound 2 ''mousedown'' (snd (snd (createDom ''5'' (Undoredo 7) (host_world None)))) =
     [redoMouseDown'] \<and>
   calls (snd (snd (run_handler redoMouseDown' (Undoredo 7) (host_world None)))) =
     [ConsoleLog ''redo mouse down event'', UndoCall 7 True]"
proof -
  have h: "workspace' (Undoredo 7) = Some 7" by (simp add: Undoredo_def)
  show ?thesis
    using h mousedown_handlers_call_undo
      [OF h, where rnd = "''5''" and this = "Undoredo 7" and W = "host_world None"
         and ?W2.0 = "host_world None"]
    by (simp add: createDom_result host_world_def numeral_2_eq_2)
qed

section \<open>\<open>init\<close>\<close>

text \<open>
  C2. For every number \<open>v\<close>, \<^verbatim>\<open>init(v)\<close> returns the bottom margin (20) plus \<open>v\<close> plus the body
  height (44), that is \<open>v + 64\<close>; afterwards the recorded vertical spacing is \<open>20 + v\<close>, and
  nothing else of the widget has changed.
\<close>

theorem init_extent:
  "MARGIN_BOTTOM' = 20 \<and> BODY_HEIGHT' = 44 \<and>
   fst (init v this) = MARGIN_BOTTOM' + v + BODY_HEIGHT' \<and>
   fst (init v this) = v + 64 \<and>
   snd (init v this) = this\<lparr>verticalSpacing' := Some (20 + v)\<rparr>"
  by (simp add: init_def MARGIN_BOTTOM'_def BODY_HEIGHT'_def)

section \<open>\<open>position\<close>\<close>

text \<open>
  C3. Let the widget be initialized in the sense of \<^verbatim>\<open>position\<close>'s own test (a vertical
  spacing other than 0 is recorded) and let its workspace report metrics. If the metrics have
  the toolbox at the left, or the workspace is laid out horizontally and left to right, then
  \<^verbatim>\<open>position()\<close> sets the left offset to
  \<open>viewWidth + absoluteLeft - 47 - 20 - scrollbarThickness\<close>.
\<close>

theorem position_left_when_toolbox_at_left:
  assumes "verticalSpacing' this = Some vs" and "vs \<noteq> 0"
    and "workspace' this = Some w" and "getMetrics (workspaces W w) = Some m"
    and "toolboxPosition m = TOOLBOX_AT_LEFT B \<or>
         (horizontalLayout (workspaces W w) \<and> \<not> RTL (workspaces W w))"
  shows "left' (fst (snd (position B this W))) =
           viewWidth m + absoluteLeft m - 47 - 20 - scrollbarThickness B"
  using assms
  by (auto simp add: position_def Let_def WIDTH'_def MARGIN_SIDE'_def split: option.splits)

theorem position_left_when_toolbox_at_left_witness:
  "verticalSpacing' (snd (init 0 (Undoredo 0))) = Some 20 \<and>
   workspace' (snd (init 0 (Undoredo 0))) = Some 0 \<and>
   getMetrics (workspaces (host_world (Some (host_metrics 2))) 0) = Some (host_metrics 2) \<and>
   toolboxPosition (host_metrics 2) = TOOLBOX_AT_LEFT host_blockly \<and>
   left' (fst (snd (position host_blockly (snd (init 0 (Undoredo 0)))
                      (host_world (Some (host_metrics 2)))))) = 818"
proof -
  have a: "verticalSpacing' (snd (init 0 (Undoredo 0))) = Some 20"
    by (simp add: init_def MARGIN_BOTTOM'_def)
  have b: "(20::real) \<noteq> 0" by simp
  have c: "workspace' (snd (init 0 (Undoredo 0))) = Some 0"
    by (simp add: init_def Undoredo_def Let_def)
  have d: "getMetrics (workspaces (host_world (Some (host_metrics 2))) 0) = Some (host_metrics 2)"
    by (simp add: host_world_def)
  have e: "toolboxPosition (host_metrics 2) = TOOLBOX_AT_LEFT host_blockly \<or>
           (horizontalLayout (workspaces (host_world (Some (host_metrics 2))) 0) \<and>
            \<not> RTL (workspaces (host_world (Some (host_metrics 2))) 0))"
    by (simp add: host_metrics_def host_blockly_def)
  show ?thesis
    using a c d position_left_when_toolbox_at_left [OF a b c d e]
    by (simp add: host_metrics_def host_blockly_def)
qed

text \<open>
  C4. Let the widget be initialized (a vertical spacing other than 0 is recorded) and let its
  workspace report metrics that have the toolbox at the bottom. Then \<^verbatim>\<open>position()\<close> sets the
  top offset to the recorded vertical spacing.
\<close>

theorem position_top_when_toolbox_at_bottom:
  assumes "verticalSpacing' this = Some vs" and "vs \<noteq> 0"
    and "workspace' this = Some w" and "getMetrics (workspaces W w) = Some m"
    and "toolboxPosition m = TOOLBOX_AT_BOTTOM B"
  shows "top' (fst (snd (position B this W))) = vs"
  using assms
  by (auto simp add: position_def Let_def split: option.splits)

theorem position_top_when_toolbox_at_bottom_witness:
  "verticalSpacing' (snd (init 5 (Undoredo 0))) = Some 25 \<and>
   workspace' (snd (init 5 (Undoredo 0))) = Some 0 \<and>
   getMetrics (workspaces (host_world (Some (host_metrics 1))) 0) = Some (host_metrics 1) \<and>
   toolboxPosition (host_metrics 1) = TOOLBOX_AT_BOTTOM host_blockly \<and>
   top' (fst (snd (position host_blockly (snd (init 5 (Undoredo 0)))
                     (host_world (Some (host_metrics 1)))))) = 25"
proof -
  have a: "verticalSpacing' (snd (init 5 (Undoredo 0))) = Some 25"
    by (simp add: init_def MARGIN_BOTTOM'_def)
  have b: "(25::real) \<noteq> 0" by simp
  have c: "workspace' (snd (init 5 (Undoredo 0))) = Some 0"
    by (simp add: init_def Undoredo_def Let_def)
  have d: "getMetrics (workspaces (host_world (Some (host_metrics 1))) 0) = Some (host_metrics 1)"
    by (simp add: host_world_def)
  have e: "toolboxPosition (host_metrics 1) = TOOLBOX_AT_BOTTOM host_blockly"
    by (simp add: host_metrics_def host_blockly_def)
  show ?thesis
    using a c d e position_top_when_toolbox_at_bottom [OF a b c d e]
    by simp
qed

text \<open>
  C5. Let the widget be initialized (a vertical spacing \<open>vs\<close> other than 0 is recorded) and let
  its workspace report metrics. If the toolbox is not at the left and the layout is not
  horizontal left-to-right, \<^verbatim>\<open>position()\<close> sets the left offset to \<open>20 + scrollbarThickness\<close>;
  if the toolbox is not at the bottom, it sets the top offset to
  \<open>viewHeight + absoluteTop - 44 - vs\<close>.
\<close>

theorem position_remaining_branches:
  assumes "verticalSpacing' this = Some vs" and "vs \<noteq> 0"
    and "workspace' this = Some w" and "getMetrics (workspaces W w) = Some m"
  shows "(toolboxPosition m \<noteq> TOOLBOX_AT_LEFT B \<and>
          \<not> (horizontalLayout (workspaces W w) \<and> \<not> RTL (workspaces W w)) \<longrightarrow>
            left' (fst (snd (position B this W))) = 20 + scrollbarThickness B) \<and>
         (toolboxPosition m \<noteq> TOOLBOX_AT_BOTTOM B \<longrightarrow>
            top' (fst (snd (position B this W))) = viewHeight m + absoluteTop m - 44 - vs)"
  using assms
  by (auto simp add: position_def Let_def MARGIN_SIDE'_def BODY_HEIGHT'_def split: option.splits)

theorem position_remaining_branches_witness:
  "verticalSpacing' (snd (init 0 (Undoredo 0))) = Some 20 \<and>
   workspace' (snd (init 0 (Undoredo 0))) = Some 0 \<and>
   getMetrics (workspaces (host_world (Some (host_metrics 3))) 0) = Some (host_metrics 3) \<and>
   toolboxPosition (host_metrics 3) \<noteq> TOOLBOX_AT_LEFT host_blockly \<and>
   \<not> horizontalLayout (workspaces (host_world (Some (host_metrics 3))) 0) \<and>
   toolboxPosition (host_metrics 3) \<noteq> TOOLBOX_AT_BOTTOM host_blockly \<and>
   left' (fst (snd (position host_blockly (snd (init 0 (Undoredo 0)))
                      (host_world (Some (host_metrics 3)))))) = 35 \<and>
   top' (fst (snd (position host_blockly (snd (init 0 (Undoredo 0)))
                     (host_world (Some (host_metrics 3)))))) = 536"
proof -
  have a: "verticalSpacing' (snd (init 0 (Undoredo 0))) = Some 20"
    by (simp add: init_def MARGIN_BOTTOM'_def)
  have b: "(20::real) \<noteq> 0" by simp
  have c: "workspace' (snd (init 0 (Undoredo 0))) = Some 0"
    by (simp add: init_def Undoredo_def Let_def)
  have d: "getMetrics (workspaces (host_world (Some (host_metrics 3))) 0) = Some (host_metrics 3)"
    by (simp add: host_world_def)
  have e: "toolboxPosition (host_metrics 3) \<noteq> TOOLBOX_AT_LEFT host_blockly \<and>
           \<not> horizontalLayout (workspaces (host_world (Some (host_metrics 3))) 0) \<and>
           toolboxPosition (host_metrics 3) \<noteq> TOOLBOX_AT_BOTTOM host_blockly"
    by (simp add: host_metrics_def host_blockly_def host_world_def)
  show ?thesis
    using a c d e position_remaining_branches [OF a b c d, of host_blockly]
    by (simp add: host_metrics_def host_blockly_def)
qed

text \<open>
  C6. On a widget on which \<^verbatim>\<open>init\<close> has not been called (no vertical spacing is recorded),
  \<^verbatim>\<open>position()\<close> returns normally and leaves the widget and the world as they are: the left and
  top coordinates keep their values, no attribute of any node changes, and no call is made
  (the metrics are not queried).
\<close>

theorem position_before_init_is_noop:
  assumes "verticalSpacing' this = None"
  shows "position B this W = (Normal (), this, W)"
  using assms by (simp add: position_def)

theorem position_before_init_is_noop_witness:
  "verticalSpacing' ((Undoredo 0)\<lparr>svgGroup' := Some 1\<rparr>) = None \<and>
   position host_blockly ((Undoredo 0)\<lparr>svgGroup' := Some 1\<rparr>)
     ((host_world (Some (host_metrics 2)))\<lparr>dom := host_document\<rparr>) =
   (Normal (), (Undoredo 0)\<lparr>svgGroup' := Some 1\<rparr>,
    (host_world (Some (host_metrics 2)))\<lparr>dom := host_document\<rparr>)"
proof -
  have a: "verticalSpacing' ((Undoredo 0)\<lparr>svgGroup' := Some 1\<rparr>) = None"
    by (simp add: Undoredo_def)
  show ?thesis
    using a position_before_init_is_noop
      [OF a, of host_blockly "(host_world (Some (host_metrics 2)))\<lparr>dom := host_document\<rparr>"]
    by simp
qed

text \<open>
  C7. Let the widget be initialized (a vertical spacing other than 0 is recorded) and let the
  metrics query of its workspace return nothing. Then \<^verbatim>\<open>position()\<close> returns normally with the
  widget unchanged (so the left and top coordinates keep their values) and the document
  unchanged (so the root group's transform keeps its value); the query is the only call made.
\<close>

theorem position_without_metrics_is_noop:
  assumes "verticalSpacing' this = Some vs" and "vs \<noteq> 0"
    and "workspace' this = Some w" and "getMetrics (workspaces W w) = None"
  shows "position B this W = (Normal (), this, W\<lparr>calls := calls W @ [GetMetricsCall w]\<rparr>)"
  using assms by (simp add: position_def)

theorem position_without_metrics_is_noop_witness:
  "verticalSpacing' ((snd (init 0 (Undoredo 0)))\<lparr>svgGroup' := Some 1\<rparr>) = Some 20 \<and>
   workspace' ((snd (init 0 (Undoredo 0)))\<lparr>svgGroup' := Some 1\<rparr>) = Some 0 \<and>
   getMetrics (workspaces ((host_world None)\<lparr>dom := host_document\<rparr>) 0) = None \<and>
   fst (snd (position host_blockly ((snd (init 0 (Undoredo 0)))\<lparr>svgGroup' := Some 1\<rparr>)
               ((host_world None)\<lparr>dom := host_document\<rparr>))) =
     (snd (init 0 (Undoredo 0)))\<lparr>svgGroup' := Some 1\<rparr> \<and>
   dom (snd (snd (position host_blockly ((snd (init 0 (Undoredo 0)))\<lparr>svgGroup' := Some 1\<rparr>)
                    ((host_world None)\<lparr>dom := host_document\<rparr>)))) = host_document"
proof -
  have a: "verticalSpacing' ((snd (init 0 (Undoredo 0)))\<lparr>svgGroup' := Some 1\<rparr>) = Some 20"
    by (simp add: init_def MARGIN_BOTTOM'_def)
  have b: "(20::real) \<noteq> 0" by simp
  have c: "workspace' ((snd (init 0 (Undoredo 0)))\<lparr>svgGroup' := Some 1\<rparr>) = Some 0"
    by (simp add: init_def Undoredo_def Let_def)
  have d: "getMetrics (workspaces ((host_world None)\<lparr>dom := host_document\<rparr>) 0) = None"
    by (simp add: host_world_def)
  show ?thesis
    using a c d position_without_metrics_is_noop [OF a b c d, of host_blockly]
    by simp
qed

section \<open>\<open>dispose\<close>\<close>

text \<open>
  C8. \<^verbatim>\<open>dispose()\<close> completes normally and leaves both the root group reference and the
  workspace reference null. If there was a root group, it has been handed to \<^verbatim>\<open>removeNode\<close>:
  it has no parent afterwards and is no longer among the children of the parent it had. If
  there was none (no DOM was ever created, or the widget was disposed before), the world is
  left as it is. A second \<^verbatim>\<open>dispose()\<close> completes normally and changes nothing.
\<close>

theorem dispose_clears_references:
  "case dispose this W of (this1, W1) \<Rightarrow>
     step B Dispose this W = (Normal (), this1, W1) \<and>
     svgGroup' this1 = None \<and> workspace' this1 = None \<and>
     step B Dispose this1 W1 = (Normal (), this1, W1) \<and>
     (svgGroup' this = None \<longrightarrow> W1 = W) \<and>
     (\<forall>g. svgGroup' this = Some g \<longrightarrow> W1 = removeNode g W) \<and>
     (\<forall>g. svgGroup' this = Some g \<and> g < length (dom W) \<longrightarrow>
        parentNode (dom W1 ! g) = None \<and>
        (\<forall>p. parentNode (dom W ! g) = Some p \<and> p < length (dom W) \<longrightarrow>
           g \<notin> set (childNodes (dom W1 ! p))))"
  by (auto simp add: dispose_def removeNode_def update_node_def Let_def nth_list_update
      split: option.splits)

theorem dispose_clears_references_witness:
  "svgGroup' ((Undoredo 0)\<lparr>svgGroup' := Some 1\<rparr>) = Some 1 \<and>
   1 < length (dom ((host_world None)\<lparr>dom := host_document\<rparr>)) \<and>
   parentNode (dom ((host_world None)\<lparr>dom := host_document\<rparr>) ! 1) = Some 0 \<and>
   svgGroup' (fst (dispose ((Undoredo 0)\<lparr>svgGroup' := Some 1\<rparr>)
                     ((host_world None)\<lparr>dom := host_document\<rparr>))) = None \<and>
   workspace' (fst (dispose ((Undoredo 0)\<lparr>svgGroup' := Some 1\<rparr>)
                      ((host_world None)\<lparr>dom := host_document\<rparr>))) = None \<and>
   parentNode (dom (snd (dispose ((Undoredo 0)\<lparr>svgGroup' := Some 1\<rparr>)
                           ((host_world None)\<lparr>dom := host_document\<rparr>))) ! 1) = None \<and>
   1 \<notin> set (childNodes (dom (snd (dispose ((Undoredo 0)\<lparr>svgGroup' := Some 1\<rparr>)
                           ((host_world None)\<lparr>dom := host_document\<rparr>))) ! 0))"
  using dispose_clears_references
    [where this = "(Undoredo 0)\<lparr>svgGroup' := Some 1\<rparr>"
       and W = "(host_world None)\<lparr>dom := host_document\<rparr>" and B = host_blockly]
  by (simp add: case_prod_beta dispose_def removeNode_def update_node_def Let_def
      Undoredo_def host_world_def host_document_def)

section \<open>Failures\<close>

text \<open>
  \<^verbatim>\<open>position()\<close> throws after \<^verbatim>\<open>dispose()\<close> on an initialized widget, and it throws on an
  initialized widget with metrics available when \<^verbatim>\<open>createDom\<close> has not been called.
\<close>

theorem position_throws_out_of_lifecycle:
  "fst (run host_blockly [CreateDom ''5'', Init 0, Position, Dispose, Position] (Undoredo 0)
          (host_world (Some (host_metrics 2)))) = Throw TypeError \<and>
   fst (run host_blockly [Init 0, Position] (Undoredo 0)
          (host_world (Some (host_metrics 2)))) = Throw TypeError"
  by (simp add: createDom_result init_def position_def dispose_def removeNode_def
      setAttribute_def update_node_def Undoredo_def host_world_def host_metrics_def
      host_blockly_def MARGIN_BOTTOM'_def Let_def)

text \<open>
  C9, as the code has it. \<^verbatim>\<open>createDom\<close>, \<^verbatim>\<open>init\<close>, \<^verbatim>\<open>dispose\<close> and the release and hover
  handlers never throw. \<^verbatim>\<open>position()\<close> throws exactly when a vertical spacing other than 0 is
  recorded and either the workspace reference is null, or metrics are available and the root
  group is null. A mousedown handler throws exactly when the workspace reference is null.
  Hence no call throws in a run that starts with \<^verbatim>\<open>createDom\<close> on a widget that holds its
  workspace and in which only \<^verbatim>\<open>dispose\<close> calls follow the first \<^verbatim>\<open>dispose\<close>.
\<close>

theorem throws_only_out_of_lifecycle:
  "(fst (step B x this W) = Throw TypeError \<longleftrightarrow>
      (x = Position \<and> (\<exists>vs. verticalSpacing' this = Some vs \<and> vs \<noteq> 0) \<and>
         (workspace' this = None \<or>
          (svgGroup' this = None \<and>
           (\<exists>w m. workspace' this = Some w \<and> getMetrics (workspaces W w) = Some m))))
    \<or> ((x = Fire undoMouseDown' \<or> x = Fire redoMouseDown') \<and> workspace' this = None)) \<and>
   (workspace' this \<noteq> None \<and> Dispose \<notin> set xs \<longrightarrow>
      fst (run B (CreateDom rnd # xs @ replicate n Dispose) this W) = Normal ())"
proof (intro conjI impI)
  show "fst (step B x this W) = Throw TypeError \<longleftrightarrow>
      (x = Position \<and> (\<exists>vs. verticalSpacing' this = Some vs \<and> vs \<noteq> 0) \<and>
         (workspace' this = None \<or>
          (svgGroup' this = None \<and>
           (\<exists>w m. workspace' this = Some w \<and> getMetrics (workspaces W w) = Some m))))
    \<or> ((x = Fire undoMouseDown' \<or> x = Fire redoMouseDown') \<and> workspace' this = None)"
    by (rule step_throws)
next
  assume a: "workspace' this \<noteq> None \<and> Dispose \<notin> set xs"
  then obtain w where "workspace' this = Some w" by auto
  from run_lifecycle [OF this] a
  show "fst (run B (CreateDom rnd # xs @ replicate n Dispose) this W) = Normal ()" by simp
qed

theorem throws_only_out_of_lifecycle_witness:
  "workspace' (Undoredo 0) \<noteq> None \<and>
   Dispose \<notin> set [Init 0, Position, Fire undoMouseDown', Fire redoMouseOut', Position] \<and>
   fst (run host_blockly
          [CreateDom ''5'', Init 0, Position, Fire undoMouseDown', Fire redoMouseOut', Position,
           Dispose, Dispose]
          (Undoredo 0) (host_world (Some (host_metrics 2)))) = Normal () \<and>
   fst (step host_blockly Position ((snd (init 0 (Undoredo 0)))\<lparr>workspace' := None\<rparr>)
          (host_world (Some (host_metrics 2)))) = Throw TypeError"
proof -
  have a: "workspace' (Undoredo 0) \<noteq> None \<and>
     Dispose \<notin> set [Init 0, Position, Fire undoMouseDown', Fire redoMouseOut', Position]"
    by (simp add: Undoredo_def)
  have b: "verticalSpacing' ((snd (init 0 (Undoredo 0)))\<lparr>workspace' := None\<rparr>) = Some 20 \<and>
     workspace' ((snd (init 0 (Undoredo 0)))\<lparr>workspace' := None\<rparr>) = None"
    by (simp add: init_def MARGIN_BOTTOM'_def)
  have c: "replicate 2 Dispose = [Dispose, Dispose]" by (simp add: numeral_2_eq_2)
  have l: "fst (run host_blockly
          (CreateDom ''5'' # [Init 0, Position, Fire undoMouseDown', Fire redoMouseOut', Position]
             @ replicate 2 Dispose)
          (Undoredo 0) (host_world (Some (host_metrics 2)))) = Normal ()"
    using a throws_only_out_of_lifecycle
      [where this = "Undoredo 0" and W = "host_world (Some (host_metrics 2))"
         and B = host_blockly and rnd = "''5''" and n = 2
         and xs = "[Init 0, Position, Fire undoMouseDown', Fire redoMouseOut', Position]"]
    by blast
  have t: "fst (step host_blockly Position ((snd (init 0 (Undoredo 0)))\<lparr>workspace' := None\<rparr>)
          (host_world (Some (host_metrics 2)))) = Throw TypeError"
    using b throws_only_out_of_lifecycle
      [where this = "(snd (init 0 (Undoredo 0)))\<lparr>workspace' := None\<rparr>"
         and W = "host_world (Some (host_metrics 2))" and B = host_blockly and x = Position]
    by simp
  from a l t c show ?thesis by simp
qed

section \<open>Zero spacing\<close>

text \<open>
  C10. \<^verbatim>\<open>init(-20)\<close> records the vertical spacing 0, which \<^verbatim>\<open>position\<close>'s test takes for
  "not yet initialized": after it, any number of \<^verbatim>\<open>position()\<close> calls return normally and
  leave the widget (coordinates included) and the world (transform included, no metrics
  query) exactly as they were.
\<close>

theorem zero_spacing_counts_as_uninitialized:
  "verticalSpacing' (snd (init (- 20) this)) = Some 0 \<and>
   position B (snd (init (- 20) this)) W = (Normal (), snd (init (- 20) this), W) \<and>
   run B (replicate n Position) (snd (init (- 20) this)) W =
     (Normal (), snd (init (- 20) this), W)"
proof -
  have p: "position B (snd (init (- 20) this)) W = (Normal (), snd (init (- 20) this), W)"
    by (simp add: init_def position_def MARGIN_BOTTOM'_def)
  from run_positions_noop [OF p] p show ?thesis
    by (simp add: init_def MARGIN_BOTTOM'_def)
qed

theorem zero_spacing_counts_as_uninitialized_witness:
  "fst (snd (run host_blockly [Position, Position, Position]
               ((snd (init (- 20) (Undoredo 0)))\<lparr>svgGroup' := Some 1\<rparr>)
               ((host_world (Some (host_metrics 2)))\<lparr>dom := host_document\<rparr>))) =
     \<lparr>workspace' = Some 0, svgGroup' = Some 1, left' = 0, top' = 0, verticalSpacing' = Some 0\<rparr> \<and>
   dom (snd (snd (run host_blockly [Position, Position, Position]
               ((snd (init (- 20) (Undoredo 0)))\<lparr>svgGroup' := Some 1\<rparr>)
               ((host_world (Some (host_metrics 2)))\<lparr>dom := host_document\<rparr>)))) = host_document \<and>
   calls (snd (snd (run host_blockly [Position, Position, Position]
               ((snd (init (- 20) (Undoredo 0)))\<lparr>svgGroup' := Some 1\<rparr>)
               ((host_world (Some (host_metrics 2)))\<lparr>dom := host_document\<rparr>)))) = []"
proof -
  have c: "replicate 3 Position = [Position, Position, Position]"
    by (simp add: numeral_3_eq_3)
  have i: "snd (init (- 20) ((Undoredo 0)\<lparr>svgGroup' := Some 1\<rparr>)) =
      (snd (init (- 20) (Undoredo 0)))\<lparr>svgGroup' := Some 1\<rparr>"
    by (simp add: init_def Let_def Undoredo_def)
  show ?thesis
    using zero_spacing_counts_as_uninitialized
      [where this = "(Undoredo 0)\<lparr>svgGroup' := Some 1\<rparr>" and B = host_blockly and n = 3
         and W = "(host_world (Some (host_metrics 2)))\<lparr>dom := host_document\<rparr>"]
    unfolding c i
    by (simp add: init_def Let_def Undoredo_def MARGIN_BOTTOM'_def host_world_def)
qed

end
